theory Spec2Isabelle
  imports Complex_Main "HOL-Library.AList" "HOL-Library.DAList"
begin

section \<open>JavaScript values\<close>

text \<open>
  \<^verbatim>\<open>live_canvas.js\<close> is a single class, \<^verbatim>\<open>LiveCanvas\<close>. Its inbound data is
  whatever \<^verbatim>\<open>JSON.parse\<close> returns, so the model works on JavaScript values, not on
  well-typed events. Numbers are real numbers extended with the three non-finite values
  of the language; rounding and the sign of zero are not modelled.
\<close>

datatype jsnum = Fin real | PosInf | NegInf | NaN

datatype jsval =
    Undefined
  | Null
  | Bool bool
  | Number jsnum
  | Str string
  | Arr "jsval list"
  | Obj "(string \<times> jsval) list"

datatype error = TypeError | SyntaxError

datatype outcome = Normal | Throws error

text \<open>
  Two conversions of the language are not part of the repository and are taken as
  parameters: the decimal rendering of a finite number and the reading of a string as
  a number.
\<close>

record builtins =
  numberToString :: "real \<Rightarrow> string"
  stringToNumber :: "string \<Rightarrow> jsnum"

text \<open>\<^verbatim>\<open>a / w\<close>, \<^verbatim>\<open>a * w\<close> and \<^verbatim>\<open>a + b\<close> where \<^verbatim>\<open>w\<close> is a canvas dimension
  (a non-negative integer) and \<^verbatim>\<open>b\<close> a finite constant.\<close>

definition js_div :: "real \<Rightarrow> nat \<Rightarrow> jsnum" where
  "js_div a w =
     (if w \<noteq> 0 then Fin (a / real w)
      else if 0 < a then PosInf
      else if a < 0 then NegInf
      else NaN)"

fun js_mul :: "jsnum \<Rightarrow> nat \<Rightarrow> jsnum" where
  "js_mul (Fin a) w = Fin (a * real w)"
| "js_mul PosInf w = (if w = 0 then NaN else PosInf)"
| "js_mul NegInf w = (if w = 0 then NaN else NegInf)"
| "js_mul NaN w = NaN"

fun js_add :: "jsnum \<Rightarrow> real \<Rightarrow> jsnum" where
  "js_add (Fin a) b = Fin (a + b)"
| "js_add n b = n"

fun join_comma :: "string list \<Rightarrow> string" where
  "join_comma [] = []"
| "join_comma [s] = s"
| "join_comma (s # t # ss) = s @ '','' @ join_comma (t # ss)"

text \<open>\<^verbatim>\<open>ToString\<close>, which turns the value in \<^verbatim>\<open>this.users[data.id]\<close> into a property
  key. An array is the comma-joined conversion of its elements, \<^verbatim>\<open>null\<close> and
  \<^verbatim>\<open>undefined\<close> elements giving the empty string.\<close>

fun to_string :: "(real \<Rightarrow> string) \<Rightarrow> jsval \<Rightarrow> string" where
  "to_string n2s Undefined = ''undefined''"
| "to_string n2s Null = ''null''"
| "to_string n2s (Bool b) = (if b then ''true'' else ''false'')"
| "to_string n2s (Number (Fin r)) = n2s r"
| "to_string n2s (Number PosInf) = ''Infinity''"
| "to_string n2s (Number NegInf) = ''-Infinity''"
| "to_string n2s (Number NaN) = ''NaN''"
| "to_string n2s (Str s) = s"
| "to_string n2s (Arr vs) =
     join_comma (map (\<lambda>v. if v = Undefined \<or> v = Null then [] else to_string n2s v) vs)"
| "to_string n2s (Obj kvs) = ''[object Object]''"

text \<open>\<^verbatim>\<open>ToNumber\<close>, applied to the operands of \<^verbatim>\<open>*\<close>.\<close>

fun to_number :: "builtins \<Rightarrow> jsval \<Rightarrow> jsnum" where
  "to_number bi Undefined = NaN"
| "to_number bi Null = Fin 0"
| "to_number bi (Bool b) = Fin (if b then 1 else 0)"
| "to_number bi (Number n) = n"
| "to_number bi (Str s) = stringToNumber bi s"
| "to_number bi (Arr vs) = stringToNumber bi (to_string (numberToString bi) (Arr vs))"
| "to_number bi (Obj kvs) = NaN"

text \<open>Reading a property. On \<^verbatim>\<open>null\<close> and \<^verbatim>\<open>undefined\<close> the read throws a
  \<^verbatim>\<open>TypeError\<close> (\<open>nullish\<close>); on any other value the names the program reads
  (\<^verbatim>\<open>id\<close>, \<^verbatim>\<open>type\<close>, \<^verbatim>\<open>x\<close>, \<^verbatim>\<open>y\<close>, \<^verbatim>\<open>color\<close>) are found among an object's own
  properties or not at all. An object is the list of its own properties; the first
  entry for a name is the property's value.\<close>

fun nullish :: "jsval \<Rightarrow> bool" where
  "nullish Undefined = True"
| "nullish Null = True"
| "nullish v = False"

fun get_prop :: "jsval \<Rightarrow> string \<Rightarrow> jsval" where
  "get_prop (Obj kvs) k = (case map_of kvs k of None \<Rightarrow> Undefined | Some v \<Rightarrow> v)"
| "get_prop v k = Undefined"

section \<open>The state of a LiveCanvas\<close>

text \<open>An entry of \<^verbatim>\<open>this.users\<close>: \<^verbatim>\<open>{x, y, color, lastSeen}\<close>. A field that was never
  assigned reads \<^verbatim>\<open>undefined\<close>; \<^verbatim>\<open>lastSeen\<close> is only ever assigned \<^verbatim>\<open>Date.now()\<close>,
  an integer number of milliseconds.

  \<^verbatim>\<open>this.users\<close> itself is the list of its own properties, with distinct keys, in
  insertion order (the language lists keys that look like array indices first; the order
  only decides in which order the cursors of one frame are painted). Properties that
  \<^verbatim>\<open>this.users\<close> inherits from \<^verbatim>\<open>Object.prototype\<close> are not modelled: an \<^verbatim>\<open>id\<close> such as
  \<^verbatim>\<open>constructor\<close> or \<^verbatim>\<open>__proto__\<close> is treated like any other key.\<close>

record user =
  user_x :: jsval
  user_y :: jsval
  user_color :: jsval
  lastSeen :: "int option"

definition empty_user :: user where
  "empty_user = \<lparr>user_x = Undefined, user_y = Undefined, user_color = Undefined, lastSeen = None\<rparr>"

record pos =
  pos_x :: jsval
  pos_y :: jsval

text \<open>The calls made on the 2D context, one entry per painted primitive, with the
  arguments as passed: the fade rectangle, a stroked segment (\<^verbatim>\<open>moveTo\<close>, \<^verbatim>\<open>lineTo\<close>,
  \<^verbatim>\<open>strokeStyle\<close>), a filled cursor disc (\<^verbatim>\<open>arc\<close> centre, \<^verbatim>\<open>fillStyle\<close>) and a name
  tag (\<^verbatim>\<open>fillText\<close>). A style is the value assigned to the style property, whether or
  not the canvas accepts it as a color.\<close>

datatype draw_op =
    FillRect string nat nat
  | Stroke jsnum jsnum jsnum jsnum jsval
  | ArcFill jsnum jsnum jsval
  | FillText string jsnum jsnum

text \<open>The bus client: whether it reports connected, and the messages handed to
  \<^verbatim>\<open>send\<close> (destination and the object given to \<^verbatim>\<open>JSON.stringify\<close>).\<close>

record transport =
  connected :: bool
  sent :: "(string \<times> jsval) list"

record live_canvas =
  myId :: string
  myColor :: string
  users :: "(string, user) alist"
  isDrawing :: bool
  lastPos :: "pos option"
  client :: "transport option"
  topic :: string
  width :: nat
  height :: nat
  ctx :: "draw_op list"
  console :: "string list"

record pointer_event =
  clientX :: real
  clientY :: real

record dom_rect =
  rect_left :: real
  rect_top :: real

section \<open>The methods\<close>

definition resize :: "nat \<Rightarrow> live_canvas \<Rightarrow> live_canvas" where
  "resize clientWidth st = st\<lparr>width := clientWidth, height := 300\<rparr>"

definition initMQTT :: "bool \<Rightarrow> live_canvas \<Rightarrow> live_canvas" where
  "initMQTT paho_loaded st =
     (if \<not> paho_loaded then st\<lparr>console := console st @ [''Paho MQTT client not loaded'']\<rparr>
      else st\<lparr>client := Some \<lparr>connected = False, sent = []\<rparr>\<rparr>)"

text \<open>The callbacks given to the bus client in \<^verbatim>\<open>initMQTT\<close>. From the success callback on
  the client reports connected, from the loss of the connection on it does not; the
  subscription itself is the library's business.\<close>

definition onSuccess :: "live_canvas \<Rightarrow> live_canvas" where
  "onSuccess st =
     st\<lparr>client := map_option (\<lambda>tr. tr\<lparr>connected := True\<rparr>) (client st),
        console := console st @ [''MQTT Connected'']\<rparr>"



definition publish :: "(string \<times> jsval) list \<Rightarrow> live_canvas \<Rightarrow> error + live_canvas" where
  "publish data st =
     (case client st of
        None \<Rightarrow> Inl TypeError
      | Some tr \<Rightarrow>
          if \<not> connected tr then Inr st
          else Inr (st\<lparr>client := Some (tr\<lparr>sent := sent tr @
                 [(topic st,
                   Obj (AList.update ''color'' (Str (myColor st))
                         (AList.update ''id'' (Str (myId st)) data)))]\<rparr>)\<rparr>))"

definition getPos :: "pointer_event \<Rightarrow> dom_rect \<Rightarrow> live_canvas \<Rightarrow> pos" where
  "getPos e rect st =
     \<lparr>pos_x = Number (js_div (clientX e - rect_left rect) (width st)),
      pos_y = Number (js_div (clientY e - rect_top rect) (height st))\<rparr>"

definition drawStroke :: "builtins \<Rightarrow> pos \<Rightarrow> pos \<Rightarrow> jsval \<Rightarrow> live_canvas \<Rightarrow> live_canvas" where
  "drawStroke bi start endp color st =
     st\<lparr>ctx := ctx st @
        [Stroke (js_mul (to_number bi (pos_x start)) (width st))
                (js_mul (to_number bi (pos_y start)) (height st))
                (js_mul (to_number bi (pos_x endp)) (width st))
                (js_mul (to_number bi (pos_y endp)) (height st))
                color]\<rparr>"

definition finish_publish :: "(string \<times> jsval) list \<Rightarrow> live_canvas \<Rightarrow> outcome \<times> live_canvas" where
  "finish_publish data st =
     (case publish data st of Inl e \<Rightarrow> (Throws e, st) | Inr st' \<Rightarrow> (Normal, st'))"

definition onMove ::
  "builtins \<Rightarrow> pointer_event \<Rightarrow> dom_rect \<Rightarrow> live_canvas \<Rightarrow> outcome \<times> live_canvas" where
  "onMove bi e rect st =
     (let p = getPos e rect st in
      if isDrawing st then
        (case lastPos st of
           None \<Rightarrow> (Throws TypeError, st)
         | Some lp \<Rightarrow>
             finish_publish [(''type'', Str ''draw''), (''x'', pos_x p), (''y'', pos_y p)]
               ((drawStroke bi lp p (Str (myColor st)) st)\<lparr>lastPos := Some p\<rparr>))
      else finish_publish [(''type'', Str ''move''), (''x'', pos_x p), (''y'', pos_y p)] st)"

definition onDown :: "pointer_event \<Rightarrow> dom_rect \<Rightarrow> live_canvas \<Rightarrow> live_canvas" where
  "onDown e rect st = st\<lparr>isDrawing := True, lastPos := Some (getPos e rect st)\<rparr>"


definition touch :: "jsval \<Rightarrow> int \<Rightarrow> user \<Rightarrow> user" where
  "touch data now u =
     u\<lparr>user_x := get_prop data ''x'', user_y := get_prop data ''y'',
       user_color := get_prop data ''color'', lastSeen := Some now\<rparr>"

definition handleRemoteData ::
  "builtins \<Rightarrow> int \<Rightarrow> jsval \<Rightarrow> live_canvas \<Rightarrow> error + live_canvas" where
  "handleRemoteData bi now data st =
     (if nullish data then Inl TypeError
      else
        let key = to_string (numberToString bi) (get_prop data ''id'');
            u = (case DAList.lookup (users st) key of None \<Rightarrow> empty_user | Some u \<Rightarrow> u)
        in
          if get_prop data ''type'' = Str ''move'' then
            Inr (st\<lparr>users := DAList.update key (touch data now u) (users st)\<rparr>)
          else if get_prop data ''type'' = Str ''draw'' then
            (let st1 =
               (if user_x u \<noteq> Undefined then
                  drawStroke bi \<lparr>pos_x = user_x u, pos_y = user_y u\<rparr>
                    \<lparr>pos_x = get_prop data ''x'', pos_y = get_prop data ''y''\<rparr> (get_prop data ''color'') st
                else st)
             in Inr (st1\<lparr>users := DAList.update key (touch data now u) (users st1)\<rparr>))
          else Inr (st\<lparr>users := DAList.update key u (users st)\<rparr>))"

definition parse_error :: "live_canvas \<Rightarrow> live_canvas" where
  "parse_error st = st\<lparr>console := console st @ [''MQTT Parse Error'']\<rparr>"

text \<open>The handler gets the outcome of \<^verbatim>\<open>JSON.parse(message.payloadString)\<close>:
  \<open>None\<close> when the parser throws, the parsed value otherwise. \<open>try_block\<close> is the
  body of the \<^verbatim>\<open>try\<close>; reading \<^verbatim>\<open>data.id\<close> throws when the value is \<^verbatim>\<open>null\<close>.
  The \<^verbatim>\<open>catch\<close> logs whatever was thrown, so the handler itself returns a state.\<close>

definition try_block ::
  "builtins \<Rightarrow> int \<Rightarrow> jsval option \<Rightarrow> live_canvas \<Rightarrow> error + live_canvas" where
  "try_block bi now parsed st =
     (case parsed of
        None \<Rightarrow> Inl SyntaxError
      | Some data \<Rightarrow>
          if nullish data then Inl TypeError
          else if get_prop data ''id'' = Str (myId st) then Inr st
          else handleRemoteData bi now data st)"

definition onMessageArrived ::
  "builtins \<Rightarrow> int \<Rightarrow> jsval option \<Rightarrow> live_canvas \<Rightarrow> live_canvas" where
  "onMessageArrived bi now parsed st =
     (case try_block bi now parsed st of
        Inl e \<Rightarrow> parse_error st
      | Inr st' \<Rightarrow> st')"

definition stale :: "int \<Rightarrow> user \<Rightarrow> bool" where
  "stale now u = (case lastSeen u of None \<Rightarrow> False | Some t \<Rightarrow> now - t > 10000)"

definition draw_cursor :: "builtins \<Rightarrow> string \<Rightarrow> user \<Rightarrow> live_canvas \<Rightarrow> live_canvas" where
  "draw_cursor bi ident u st =
     st\<lparr>ctx := ctx st @
        [ArcFill (js_mul (to_number bi (user_x u)) (width st))
                 (js_mul (to_number bi (user_y u)) (height st)) (user_color u),
         FillText (take 6 ident)
                 (js_add (js_mul (to_number bi (user_x u)) (width st)) 5)
                 (js_add (js_mul (to_number bi (user_y u)) (height st)) (- 5))]\<rparr>"

text \<open>The loop over \<^verbatim>\<open>Object.entries(this.users)\<close>, a snapshot taken before the
  loop starts.\<close>

fun animate_loop ::
  "builtins \<Rightarrow> int \<Rightarrow> (string \<times> user) list \<Rightarrow> live_canvas \<Rightarrow> live_canvas" where
  "animate_loop bi now [] st = st"
| "animate_loop bi now ((ident, u) # es) st =
     (if stale now u then
        animate_loop bi now es (st\<lparr>users := DAList.delete ident (users st)\<rparr>)
      else if user_x u \<noteq> Undefined then
        animate_loop bi now es (draw_cursor bi ident u st)
      else animate_loop bi now es st)"

definition animate :: "builtins \<Rightarrow> int \<Rightarrow> live_canvas \<Rightarrow> live_canvas" where
  "animate bi now st =
     animate_loop bi now (DAList.impl_of (users st))
       (st\<lparr>ctx := ctx st @ [FillRect ''rgba(0, 0, 0, 0.05)'' (width st) (height st)]\<rparr>)"

text \<open>Successive ticks of the frame loop (\<^verbatim>\<open>animate\<close> re-schedules itself with
  \<^verbatim>\<open>requestAnimationFrame\<close>), at the given times.\<close>

fun frames :: "builtins \<Rightarrow> int list \<Rightarrow> live_canvas \<Rightarrow> live_canvas" where
  "frames bi [] st = st"
| "frames bi (t # ts) st = frames bi ts (animate bi t st)"

text \<open>The constructor: a canvas of the default size 300 by 150 is created, then
  \<^verbatim>\<open>initCanvas\<close> (which resizes), \<^verbatim>\<open>initMQTT\<close> and the first \<^verbatim>\<open>animate\<close> run. The
  random identity, the container's width, whether the Paho library is loaded and the
  clock are inputs.\<close>

definition LiveCanvas ::
  "builtins \<Rightarrow> string \<Rightarrow> string \<Rightarrow> nat \<Rightarrow> bool \<Rightarrow> int \<Rightarrow> live_canvas" where
  "LiveCanvas bi ident colour clientWidth paho_loaded now =
     animate bi now (initMQTT paho_loaded (resize clientWidth
       \<lparr>myId = ident, myColor = colour, users = DAList.empty, isDrawing = False,
        lastPos = None, client = None, topic = ''jvav/live/interaction'',
        width = 300, height = 150, ctx = [], console = []\<rparr>))"

section \<open>Notions used by the properties\<close>

fun is_stroke :: "draw_op \<Rightarrow> bool" where
  "is_stroke (Stroke a b c d col) = True"
| "is_stroke other = False"






text \<open>The cursor and name tag that one entry contributes to a frame.\<close>

definition cursor_ops :: "builtins \<Rightarrow> int \<Rightarrow> nat \<Rightarrow> nat \<Rightarrow> string \<times> user \<Rightarrow> draw_op list" where
  "cursor_ops bi now w h e =
     (if stale now (snd e) \<or> user_x (snd e) = Undefined then []
      else [ArcFill (js_mul (to_number bi (user_x (snd e))) w)
                    (js_mul (to_number bi (user_y (snd e))) h) (user_color (snd e)),
            FillText (take 6 (fst e))
                    (js_add (js_mul (to_number bi (user_x (snd e))) w) 5)
                    (js_add (js_mul (to_number bi (user_y (snd e))) h) (- 5))])"

subsection \<open>Concrete inputs for the examples\<close>

text \<open>None of the examples below renders a number as a property key or reads a string
  as a number, so the two conversions are never called in them.\<close>

definition plain :: builtins where
  "plain = \<lparr>numberToString = (\<lambda>r. ''0''), stringToNumber = (\<lambda>s. NaN)\<rparr>"

text \<open>A page whose identity is \<^verbatim>\<open>user_42\<close>, on a container 800 pixels wide, started at
  time 0: with the bus library loaded, and without it.\<close>

definition page :: live_canvas where
  "page = LiveCanvas plain ''user_42'' ''hsl(10, 100%, 70%)'' 800 True 0"

definition page_no_bus :: live_canvas where
  "page_no_bus = LiveCanvas plain ''user_42'' ''hsl(10, 100%, 70%)'' 800 False 0"

definition event :: "string \<Rightarrow> real \<Rightarrow> real \<Rightarrow> jsval \<Rightarrow> string \<Rightarrow> jsval" where
  "event ty px py ident colour =
     Obj [(''type'', Str ty), (''x'', Number (Fin px)), (''y'', Number (Fin py)),
          (''id'', ident), (''color'', Str colour)]"








text \<open>The page once the bus client reports connected; a pointer event; a canvas whose
  bounding rectangle starts at the origin of the viewport.\<close>

definition page_online :: live_canvas where
  "page_online = onSuccess page"

definition pointer :: "real \<Rightarrow> real \<Rightarrow> pointer_event" where
  "pointer px py = \<lparr>clientX = px, clientY = py\<rparr>"

definition origin :: dom_rect where
  "origin = \<lparr>rect_left = 0, rect_top = 0\<rparr>"


section \<open>Basic facts\<close>

lemma animate_loop_fields:
  "myId (animate_loop bi now es st) = myId st \<and> width (animate_loop bi now es st) = width st
   \<and> height (animate_loop bi now es st) = height st
   \<and> client (animate_loop bi now es st) = client st
   \<and> console (animate_loop bi now es st) = console st
   \<and> isDrawing (animate_loop bi now es st) = isDrawing st
   \<and> lastPos (animate_loop bi now es st) = lastPos st
   \<and> myColor (animate_loop bi now es st) = myColor st
   \<and> topic (animate_loop bi now es st) = topic st"
  by (induction bi now es st rule: animate_loop.induct) (simp_all add: draw_cursor_def)

lemma animate_fields:
  "myId (animate bi now st) = myId st" "width (animate bi now st) = width st"
  "height (animate bi now st) = height st" "client (animate bi now st) = client st"
  "console (animate bi now st) = console st" "isDrawing (animate bi now st) = isDrawing st"
  "lastPos (animate bi now st) = lastPos st" "myColor (animate bi now st) = myColor st"
  "topic (animate bi now st) = topic st"
  by (simp_all add: animate_def animate_loop_fields)

lemma animate_loop_lookup:
  "DAList.lookup (users (animate_loop bi now es st)) k =
     (if \<exists>u. (k, u) \<in> set es \<and> stale now u then None else DAList.lookup (users st) k)"
  by (induction bi now es st rule: animate_loop.induct) (auto simp: draw_cursor_def)

lemma lookup_mem: "(k, u) \<in> set (DAList.impl_of al) \<longleftrightarrow> DAList.lookup al k = Some u"
  by (simp add: DAList.lookup.rep_eq)

lemma animate_lookup:
  "DAList.lookup (users (animate bi now st)) k =
     (case DAList.lookup (users st) k of
        None \<Rightarrow> None
      | Some u \<Rightarrow> if stale now u then None else Some u)"
  by (auto simp: animate_def animate_loop_lookup lookup_mem split: option.splits)

lemma animate_loop_ctx:
  "ctx (animate_loop bi now es st) =
     ctx st @ concat (map (cursor_ops bi now (width st) (height st)) es)"
  by (induction bi now es st rule: animate_loop.induct)
     (simp_all add: draw_cursor_def cursor_ops_def)

lemma animate_ctx:
  "ctx (animate bi now st) =
     ctx st @ FillRect ''rgba(0, 0, 0, 0.05)'' (width st) (height st) #
       concat (map (cursor_ops bi now (width st) (height st)) (DAList.impl_of (users st)))"
  by (simp add: animate_def animate_loop_ctx)



lemma page_eq:
  "page = \<lparr>myId = ''user_42'', myColor = ''hsl(10, 100%, 70%)'', users = DAList.empty,
     isDrawing = False, lastPos = None, client = Some \<lparr>connected = False, sent = []\<rparr>,
     topic = ''jvav/live/interaction'', width = 800, height = 300,
     ctx = [FillRect ''rgba(0, 0, 0, 0.05)'' 800 300], console = []\<rparr>"
  by (simp add: page_def LiveCanvas_def animate_def initMQTT_def resize_def DAList.empty.rep_eq)

lemma page_no_bus_eq:
  "page_no_bus = \<lparr>myId = ''user_42'', myColor = ''hsl(10, 100%, 70%)'', users = DAList.empty,
     isDrawing = False, lastPos = None, client = None,
     topic = ''jvav/live/interaction'', width = 800, height = 300,
     ctx = [FillRect ''rgba(0, 0, 0, 0.05)'' 800 300],
     console = [''Paho MQTT client not loaded'']\<rparr>"
  by (simp add: page_no_bus_def LiveCanvas_def animate_def initMQTT_def resize_def
      DAList.empty.rep_eq)


section \<open>Eviction of stale participants\<close>



section \<open>Self-filtering at ingress\<close>











section \<open>The inbound message handler\<close>








section \<open>Remote strokes\<close>

lemma cursor_ops_no_stroke: "filter is_stroke (cursor_ops bi now w h e) = []"
  by (simp add: cursor_ops_def)

lemma concat_cursor_no_stroke:
  "filter is_stroke (concat (map (cursor_ops bi now w h) es)) = []"
  by (induction es) (simp_all add: cursor_ops_no_stroke)

lemma animate_strokes: "filter is_stroke (ctx (animate bi now st)) = filter is_stroke (ctx st)"
  by (simp add: animate_ctx concat_cursor_no_stroke)

lemma frames_strokes: "filter is_stroke (ctx (frames bi ts st)) = filter is_stroke (ctx st)"
  by (induction ts arbitrary: st) (simp_all add: animate_strokes)

lemma frames_fields:
  "myId (frames bi ts st) = myId st \<and> width (frames bi ts st) = width st \<and>
   height (frames bi ts st) = height st"
  by (induction ts arbitrary: st) (simp_all add: animate_fields)

lemma frames_keep_fresh:
  "DAList.lookup (users st) k = Some u \<Longrightarrow> lastSeen u = Some t \<Longrightarrow>
   \<forall>t' \<in> set ts. t' - t \<le> 10000 \<Longrightarrow>
   DAList.lookup (users (frames bi ts st)) k = Some u"
  by (induction ts arbitrary: st) (simp_all add: animate_lookup stale_def)

lemma str_not_nullish: "get_prop data k' = Str k \<Longrightarrow> \<not> nullish data"
  by (cases data) simp_all

lemma touch_eq:
  "touch data now u =
     \<lparr>user_x = get_prop data ''x'', user_y = get_prop data ''y'',
      user_color = get_prop data ''color'', lastSeen = Some now\<rparr>"
  by (cases u) (simp add: touch_def)

lemma message_move:
  "get_prop data ''id'' = Str k \<Longrightarrow> k \<noteq> myId st \<Longrightarrow> get_prop data ''type'' = Str ''move'' \<Longrightarrow>
   onMessageArrived bi now (Some data) st =
     st\<lparr>users := DAList.update k
       \<lparr>user_x = get_prop data ''x'', user_y = get_prop data ''y'',
        user_color = get_prop data ''color'', lastSeen = Some now\<rparr> (users st)\<rparr>"
  by (frule str_not_nullish)
     (auto simp: onMessageArrived_def try_block_def handleRemoteData_def touch_eq
       simp del: get_prop.simps split: option.splits)

lemma message_draw:
  "get_prop data ''id'' = Str k \<Longrightarrow> k \<noteq> myId st \<Longrightarrow> get_prop data ''type'' = Str ''draw'' \<Longrightarrow>
   DAList.lookup (users st) k = Some u \<Longrightarrow> user_x u \<noteq> Undefined \<Longrightarrow>
   onMessageArrived bi now (Some data) st =
     st\<lparr>ctx := ctx st @
         [Stroke (js_mul (to_number bi (user_x u)) (width st))
                 (js_mul (to_number bi (user_y u)) (height st))
                 (js_mul (to_number bi (get_prop data ''x'')) (width st))
                 (js_mul (to_number bi (get_prop data ''y'')) (height st))
                 (get_prop data ''color'')],
        users := DAList.update k
       \<lparr>user_x = get_prop data ''x'', user_y = get_prop data ''y'',
        user_color = get_prop data ''color'', lastSeen = Some now\<rparr> (users st)\<rparr>"
  by (frule str_not_nullish)
     (simp add: onMessageArrived_def try_block_def handleRemoteData_def touch_eq drawStroke_def
       del: get_prop.simps)

lemma event_props:
  "get_prop (event ty px py i c) ''type'' = Str ty"
  "get_prop (event ty px py i c) ''x'' = Number (Fin px)"
  "get_prop (event ty px py i c) ''y'' = Number (Fin py)"
  "get_prop (event ty px py i c) ''id'' = i"
  "get_prop (event ty px py i c) ''color'' = Str c"
  by (simp_all add: event_def)

text \<open>
  C4. A remote participant \<^verbatim>\<open>u1\<close> delivers a \<^verbatim>\<open>move\<close> event at (0.5, 0.5) at time \<open>t1\<close>
  and later a \<^verbatim>\<open>draw\<close> event at (0.6, 0.5), every frame in between running within
  10000 ms of \<open>t1\<close>. Then the store maps \<^verbatim>\<open>u1\<close> to (0.6, 0.5) with \<^verbatim>\<open>lastSeen\<close> the time
  of the second event, and exactly one stroke was added to the canvas, from (0.5, 0.5) to
  (0.6, 0.5) scaled to the canvas and in \<^verbatim>\<open>u1\<close>'s color: the frames add no stroke, the
  handler of the \<^verbatim>\<open>draw\<close> event appends it.
\<close>

theorem move_then_draw:
  assumes "myId st \<noteq> ''u1''" and "\<forall>t \<in> set ts. t - t1 \<le> 10000"
  shows
   "let st1 = onMessageArrived bi t1 (Some (event ''move'' 0.5 0.5 (Str ''u1'') ''red'')) st;
        st2 = frames bi ts st1;
        st3 = onMessageArrived bi t2 (Some (event ''draw'' 0.6 0.5 (Str ''u1'') ''red'')) st2;
        stroke = Stroke (Fin (0.5 * real (width st))) (Fin (0.5 * real (height st)))
                        (Fin (0.6 * real (width st))) (Fin (0.5 * real (height st))) (Str ''red'')
    in DAList.lookup (users st3) ''u1'' =
         Some \<lparr>user_x = Number (Fin 0.6), user_y = Number (Fin 0.5),
               user_color = Str ''red'', lastSeen = Some t2\<rparr> \<and>
       filter is_stroke (ctx st3) = filter is_stroke (ctx st) @ [stroke] \<and>
       filter is_stroke (ctx st2) = filter is_stroke (ctx st) \<and>
       ctx st3 = ctx st2 @ [stroke]"
proof -
  define u where "u = \<lparr>user_x = Number (Fin 0.5), user_y = Number (Fin 0.5),
               user_color = Str ''red'', lastSeen = Some t1\<rparr>"
  define st1 where "st1 = onMessageArrived bi t1 (Some (event ''move'' 0.5 0.5 (Str ''u1'') ''red'')) st"
  define st2 where "st2 = frames bi ts st1"
  have s1: "st1 = st\<lparr>users := DAList.update ''u1'' u (users st)\<rparr>"
    unfolding st1_def u_def using assms(1)
    by (subst message_move [where k = "''u1''"]) (simp_all add: event_props)
  have l2: "DAList.lookup (users st2) ''u1'' = Some u"
    unfolding st2_def using assms(2)
    by (intro frames_keep_fresh [where t = t1]) (simp_all add: s1 u_def)
  have f2: "myId st2 = myId st" "width st2 = width st" "height st2 = height st"
    by (simp_all add: st2_def frames_fields s1)
  have c2: "filter is_stroke (ctx st2) = filter is_stroke (ctx st)"
    by (simp add: st2_def frames_strokes s1)
  have s3: "onMessageArrived bi t2 (Some (event ''draw'' 0.6 0.5 (Str ''u1'') ''red'')) st2 =
     st2\<lparr>ctx := ctx st2 @
         [Stroke (Fin (0.5 * real (width st))) (Fin (0.5 * real (height st)))
                        (Fin (0.6 * real (width st))) (Fin (0.5 * real (height st))) (Str ''red'')],
        users := DAList.update ''u1''
       \<lparr>user_x = Number (Fin 0.6), user_y = Number (Fin 0.5),
               user_color = Str ''red'', lastSeen = Some t2\<rparr> (users st2)\<rparr>"
    using assms(1) l2
    by (subst message_draw [where k = "''u1''" and u = u]) (simp_all add: event_props f2 u_def)
  show ?thesis
    unfolding Let_def st1_def [symmetric] st2_def [symmetric] s3 using c2 by simp
qed

text \<open>The scenario on an 800 by 300 canvas, with frames at 1 s and 2 s and the
  \<^verbatim>\<open>draw\<close> event 3 s after the \<^verbatim>\<open>move\<close>.\<close>

theorem move_then_draw_witness:
  "myId page \<noteq> ''u1'' \<and> 1000 - 0 \<le> (10000::int) \<and> 2000 - 0 \<le> (10000::int) \<and>
   (let st1 = onMessageArrived plain 0 (Some (event ''move'' 0.5 0.5 (Str ''u1'') ''red'')) page;
        st2 = frames plain [1000, 2000] st1;
        st3 = onMessageArrived plain 3000 (Some (event ''draw'' 0.6 0.5 (Str ''u1'') ''red'')) st2;
        stroke = Stroke (Fin 400) (Fin 150) (Fin 480) (Fin 150) (Str ''red'')
    in DAList.lookup (users st3) ''u1'' =
         Some \<lparr>user_x = Number (Fin 0.6), user_y = Number (Fin 0.5),
               user_color = Str ''red'', lastSeen = Some 3000\<rparr> \<and>
       filter is_stroke (ctx st3) = filter is_stroke (ctx page) @ [stroke] \<and>
       filter is_stroke (ctx st2) = filter is_stroke (ctx page) \<and>
       ctx st3 = ctx st2 @ [stroke])"
proof -
  have h1: "myId page \<noteq> ''u1''" by (simp add: page_eq)
  have h2: "\<forall>t \<in> set [1000, 2000]. t - 0 \<le> (10000::int)" by simp
  have w: "width page = 800" "height page = 300" by (simp_all add: page_eq)
  show ?thesis
    using move_then_draw [OF h1 h2, where bi = plain and ?t2.0 = 3000] h1 h2
    by (simp add: Let_def w)
qed

section \<open>Records without a time stamp\<close>














section \<open>Publishing and local input\<close>

lemma get_prop_update:
  "get_prop (Obj (AList.update k v kvs)) k' = (if k' = k then v else get_prop (Obj kvs) k')"
  by (simp add: AList.update_conv')

text \<open>
  C5. With a bus client present: when it reports connected, \<^verbatim>\<open>publish\<close> hands exactly one
  message to \<^verbatim>\<open>send\<close>, addressed to the topic, whose payload carries the local id and
  color and otherwise the properties of the intent; when it reports disconnected,
  \<^verbatim>\<open>publish\<close> returns with the state unchanged (nothing sent, nothing queued), and a
  pointer move in drawing mode still paints the local stroke, from the anchor to the new
  position, and sends nothing.
\<close>

theorem publish_intent:
  assumes "client st = Some tr"
  shows
   "(connected tr \<longrightarrow>
      (\<exists>payload.
         publish data st = Inr (st\<lparr>client := Some (tr\<lparr>sent := sent tr @ [(topic st, payload)]\<rparr>)\<rparr>) \<and>
         get_prop payload ''id'' = Str (myId st) \<and> get_prop payload ''color'' = Str (myColor st) \<and>
         (\<forall>k. k \<noteq> ''id'' \<and> k \<noteq> ''color'' \<longrightarrow> get_prop payload k = get_prop (Obj data) k))) \<and>
    (\<not> connected tr \<longrightarrow>
      publish data st = Inr st \<and>
      (isDrawing st \<and> lastPos st = Some lp \<longrightarrow>
         (\<exists>st'. onMove bi e rect st = (Normal, st') \<and> client st' = client st \<and>
            ctx st' = ctx st @
              [Stroke (js_mul (to_number bi (pos_x lp)) (width st))
                      (js_mul (to_number bi (pos_y lp)) (height st))
                      (js_mul (to_number bi (pos_x (getPos e rect st))) (width st))
                      (js_mul (to_number bi (pos_y (getPos e rect st))) (height st))
                      (Str (myColor st))])))"
proof (intro conjI impI)
  assume "connected tr"
  then show "\<exists>payload.
         publish data st = Inr (st\<lparr>client := Some (tr\<lparr>sent := sent tr @ [(topic st, payload)]\<rparr>)\<rparr>) \<and>
         get_prop payload ''id'' = Str (myId st) \<and> get_prop payload ''color'' = Str (myColor st) \<and>
         (\<forall>k. k \<noteq> ''id'' \<and> k \<noteq> ''color'' \<longrightarrow> get_prop payload k = get_prop (Obj data) k)"
    using assms
    by (intro exI [of _ "Obj (AList.update ''color'' (Str (myColor st))
          (AList.update ''id'' (Str (myId st)) data))"])
       (simp add: publish_def get_prop_update del: get_prop.simps)
next
  assume "\<not> connected tr"
  then show "publish data st = Inr st" using assms by (simp add: publish_def)
next
  assume n: "\<not> connected tr" and d: "isDrawing st \<and> lastPos st = Some lp"
  show "\<exists>st'. onMove bi e rect st = (Normal, st') \<and> client st' = client st \<and>
            ctx st' = ctx st @
              [Stroke (js_mul (to_number bi (pos_x lp)) (width st))
                      (js_mul (to_number bi (pos_y lp)) (height st))
                      (js_mul (to_number bi (pos_x (getPos e rect st))) (width st))
                      (js_mul (to_number bi (pos_y (getPos e rect st))) (height st))
                      (Str (myColor st))]"
    using assms n d
    by (simp add: onMove_def Let_def finish_publish_def publish_def drawStroke_def)
qed

text \<open>A move intent published while connected; and, while disconnected, a local
  stroke from (0.2, 0.2) to (0.3, 0.3) on the 800 by 300 canvas.\<close>

theorem publish_intent_witness:
  "client page_online = Some \<lparr>connected = True, sent = []\<rparr> \<and>
   publish [(''type'', Str ''move''), (''x'', Number (Fin 0.2)), (''y'', Number (Fin 0.2))] page_online =
     Inr (page_online\<lparr>client := Some \<lparr>connected = True, sent =
       [(''jvav/live/interaction'',
         Obj [(''type'', Str ''move''), (''x'', Number (Fin 0.2)), (''y'', Number (Fin 0.2)),
              (''id'', Str ''user_42''), (''color'', Str ''hsl(10, 100%, 70%)'')])]\<rparr>\<rparr>) \<and>
   client (onDown (pointer 160 60) origin page) = Some \<lparr>connected = False, sent = []\<rparr> \<and>
   isDrawing (onDown (pointer 160 60) origin page) \<and>
   lastPos (onDown (pointer 160 60) origin page) =
     Some \<lparr>pos_x = Number (Fin 0.2), pos_y = Number (Fin 0.2)\<rparr> \<and>
   (\<exists>st'. onMove plain (pointer 240 90) origin (onDown (pointer 160 60) origin page) = (Normal, st') \<and>
      client st' = Some \<lparr>connected = False, sent = []\<rparr> \<and>
      ctx st' = ctx page @
        [Stroke (Fin 160) (Fin 60) (Fin 240) (Fin 90) (Str ''hsl(10, 100%, 70%)'')])"
proof -
  let ?data = "[(''type'', Str ''move''), (''x'', Number (Fin 0.2)), (''y'', Number (Fin 0.2))]"
  let ?down = "onDown (pointer 160 60) origin page"
  have c1: "client page_online = Some \<lparr>connected = True, sent = []\<rparr>"
    by (simp add: page_online_def onSuccess_def page_eq)
  have p': "publish ?data page_online =
     Inr (page_online\<lparr>client := Some \<lparr>connected = True, sent =
       [(''jvav/live/interaction'',
         Obj [(''type'', Str ''move''), (''x'', Number (Fin 0.2)), (''y'', Number (Fin 0.2)),
              (''id'', Str ''user_42''), (''color'', Str ''hsl(10, 100%, 70%)'')])]\<rparr>\<rparr>)"
    using publish_intent [OF c1, of ?data]
    by (simp add: publish_def page_online_def onSuccess_def page_eq)
  have c2: "client ?down = Some \<lparr>connected = False, sent = []\<rparr>"
    and d: "isDrawing ?down"
    and l: "lastPos ?down = Some \<lparr>pos_x = Number (Fin 0.2), pos_y = Number (Fin 0.2)\<rparr>"
    by (simp_all add: onDown_def page_eq getPos_def pointer_def origin_def js_div_def)
  have g: "getPos (pointer 240 90) origin ?down = \<lparr>pos_x = Number (Fin 0.3), pos_y = Number (Fin 0.3)\<rparr>"
    by (simp add: onDown_def page_eq getPos_def pointer_def origin_def js_div_def)
  have f: "width ?down = 800" "height ?down = 300" "ctx ?down = ctx page"
    "myColor ?down = ''hsl(10, 100%, 70%)''"
    by (simp_all add: onDown_def page_eq)
  have "\<exists>st'. onMove plain (pointer 240 90) origin ?down = (Normal, st') \<and>
      client st' = Some \<lparr>connected = False, sent = []\<rparr> \<and>
      ctx st' = ctx page @
        [Stroke (Fin 160) (Fin 60) (Fin 240) (Fin 90) (Str ''hsl(10, 100%, 70%)'')]"
    using publish_intent [OF c2, where bi = plain and e = "pointer 240 90" and rect = origin
        and lp = "\<lparr>pos_x = Number (Fin 0.2), pos_y = Number (Fin 0.2)\<rparr>"] d l
    by (simp add: g f c2)
  then show ?thesis using c1 p' c2 d l by blast
qed

text \<open>
  C6 at a page constructed without the bus library: the absence is logged once, but
  \<^verbatim>\<open>this.client\<close> stays undefined and \<^verbatim>\<open>publish\<close> calls \<^verbatim>\<open>this.client.isConnected()\<close>,
  so every pointer move ends in a \<^verbatim>\<open>TypeError\<close>; in drawing mode the local stroke has been
  painted before the exception.
\<close>

theorem no_bus_pointer_move_throws:
  "console page_no_bus = [''Paho MQTT client not loaded''] \<and>
   fst (onMove plain (pointer 240 90) origin page_no_bus) = Throws TypeError \<and>
   onMove plain (pointer 240 90) origin (onDown (pointer 160 60) origin page_no_bus) =
     (Throws TypeError,
      page_no_bus\<lparr>isDrawing := True,
        lastPos := Some \<lparr>pos_x = Number (Fin 0.3), pos_y = Number (Fin 0.3)\<rparr>,
        ctx := ctx page_no_bus @
          [Stroke (Fin 160) (Fin 60) (Fin 240) (Fin 90) (Str ''hsl(10, 100%, 70%)'')]\<rparr>)"
  by (simp add: page_no_bus_eq onMove_def onDown_def Let_def finish_publish_def publish_def
      drawStroke_def getPos_def pointer_def origin_def js_div_def)

section \<open>Coordinates\<close>







end
